theory Spec2Isabelle
  imports Complex_Main
begin

section \<open>Instrument sessions\<close>

text \<open>
  The drivers talk to an instrument through \<^verbatim>\<open>self.write\<close>, \<^verbatim>\<open>self.query\<close> and
  \<^verbatim>\<open>time.sleep\<close>. Every such call is recorded, oldest first, in the field \<open>wire\<close> of the
  session, so that the order of the transactions of a driver method can be stated.
  A command built with a numeric format (\<^verbatim>\<open>"... %.4E" % x\<close>) is recorded as the format
  string together with the number; a command built from strings is recorded as the
  resulting text. Floating point numbers are modelled as reals. The transport accepts
  every write; a query is answered by the instrument \<open>instr\<close>, which either raises
  \<^verbatim>\<open>VisaIOError\<close> or returns the reply text. Console output (\<^verbatim>\<open>print\<close>) is not a
  transaction and is not recorded.
\<close>

datatype event =
    Write string
  | WriteNum string real
  | Query string
  | Sleep real

datatype error =
    VisaIOError
  | ValueError
  | IndexError
  | UnboundLocalError
  | DimensionalityError

record visa =
  wire :: "event list"
  instr :: "string \<Rightarrow> error + string"

definition visa_write :: "string \<Rightarrow> 'a visa_scheme \<Rightarrow> 'a visa_scheme" where
  "visa_write cmd s = s\<lparr>wire := wire s @ [Write cmd]\<rparr>"

definition visa_write_num :: "string \<Rightarrow> real \<Rightarrow> 'a visa_scheme \<Rightarrow> 'a visa_scheme" where
  "visa_write_num fmt x s = s\<lparr>wire := wire s @ [WriteNum fmt x]\<rparr>"

definition time_sleep :: "real \<Rightarrow> 'a visa_scheme \<Rightarrow> 'a visa_scheme" where
  "time_sleep t s = s\<lparr>wire := wire s @ [Sleep t]\<rparr>"

definition visa_query :: "string \<Rightarrow> 'a visa_scheme \<Rightarrow> (error + string) \<times> 'a visa_scheme" where
  "visa_query cmd s = (instr s cmd, s\<lparr>wire := wire s @ [Query cmd]\<rparr>)"

text \<open>The write transactions among a list of events.\<close>

fun is_write :: "event \<Rightarrow> bool" where
  "is_write (Write c) = True"
| "is_write (WriteNum f x) = True"
| "is_write (Query c) = False"
| "is_write (Sleep t) = False"

definition writes :: "event list \<Rightarrow> event list" where
  "writes es = filter is_write es"

subsection \<open>Quantities\<close>

text \<open>
  A quantity of the unit library carries a magnitude and a unit. The drivers only
  convert a quantity to a target unit and read the magnitude (\<^verbatim>\<open>q.to(u.V).m\<close>); the
  conversion raises \<^verbatim>\<open>DimensionalityError\<close> when the dimensions differ. A quantity is
  modelled by its magnitude in the base unit of its dimension.
\<close>

datatype dimension = Voltage | Current | Duration | Length

datatype quantity = Quantity (magnitude: real) (dim: dimension)

definition to_m :: "quantity \<Rightarrow> dimension \<Rightarrow> error + real" where
  "to_m q d = (if dim q = d then Inr (magnitude q) else Inl DimensionalityError)"

section \<open>Keithley 2635A source meter\<close>

record keithley = visa +
  cur_compliance :: quantity
  volt_compliance :: quantity
  is_on :: int
  mode :: string

definition turn_on :: "keithley \<Rightarrow> keithley" where
  "turn_on s = (visa_write ''smua.source.output = smua.OUTPUT_ON'' s)\<lparr>is_on := 1\<rparr>"

definition turn_off :: "keithley \<Rightarrow> keithley" where
  "turn_off s = (visa_write ''smua.source.output = smua.OUTPUT_OFF'' s)\<lparr>is_on := 0\<rparr>"

definition set_func :: "string \<Rightarrow> keithley \<Rightarrow> keithley" where
  "set_func m s =
     (if \<not> (m = ''VOLTS'' \<or> m = ''AMPS'') then s
      else (visa_write (''smua.source.func = smua.OUTPUT_DC'' @ m) s)\<lparr>mode := m\<rparr>)"

definition set_voltage_compliance :: "quantity \<Rightarrow> keithley \<Rightarrow> (error + unit) \<times> keithley" where
  "set_voltage_compliance v_comp s =
     (case to_m v_comp Voltage of
        Inl e \<Rightarrow> (Inl e, s)
      | Inr x \<Rightarrow>
          (Inr (),
           (visa_write_num ''smua.measure.rangev = %.4E'' x
             (visa_write_num ''smua.source.limitv = %.4E'' x s))\<lparr>volt_compliance := v_comp\<rparr>))"

definition set_current_compliance :: "quantity \<Rightarrow> keithley \<Rightarrow> (error + unit) \<times> keithley" where
  "set_current_compliance i_comp s =
     (case to_m i_comp Current of
        Inl e \<Rightarrow> (Inl e, s)
      | Inr x \<Rightarrow>
          (Inr (), (visa_write_num ''smua.source.limiti = %.4E'' x s)\<lparr>cur_compliance := i_comp\<rparr>))"

definition set_voltage :: "quantity \<Rightarrow> keithley \<Rightarrow> (error + unit) \<times> keithley" where
  "set_voltage voltage s =
     (let s1 = (if \<not> (mode s = ''VOLTS'')
                then time_sleep (1 / 10) (set_func ''VOLTS'' (turn_off s)) else s);
          s2 = (if is_on s1 = 0 then turn_on s1 else s1)
      in case to_m voltage Voltage of
           Inl e \<Rightarrow> (Inl e, s2)
         | Inr x \<Rightarrow> (Inr (), visa_write_num ''smua.source.levelv = %.4E'' x s2))"

definition set_current :: "quantity \<Rightarrow> keithley \<Rightarrow> (error + unit) \<times> keithley" where
  "set_current current s =
     (let s1 = (if \<not> (mode s = ''AMPS'')
                then time_sleep (1 / 10) (set_func ''AMPS'' (turn_off s)) else s);
          s2 = (if is_on s1 = 0 then turn_on s1 else s1)
      in case to_m current Current of
           Inl e \<Rightarrow> (Inl e, s2)
         | Inr x \<Rightarrow> (Inr (), visa_write_num ''smua.source.leveli = %.4E'' x s2))"

text \<open>The state after \<^verbatim>\<open>_initialize\<close> with the given compliances.\<close>

definition keithley_init :: "(string \<Rightarrow> error + string) \<Rightarrow> quantity \<Rightarrow> quantity \<Rightarrow> keithley" where
  "keithley_init i current_compliance voltage_compliance =
     \<lparr>wire = [], instr = i, cur_compliance = current_compliance,
      volt_compliance = voltage_compliance, is_on = 0, mode = ''VOLTS''\<rparr>"

section \<open>Agilent E3633A power supply\<close>

text \<open>
  Voltages, currents and protection levels are plain Python numbers here; the bounds
  \<^verbatim>\<open>8.24\<close> and \<^verbatim>\<open>20.6\<close> are the decimal fractions written in the source.
\<close>

record agilent = visa +
  OUTPUT_on :: int
  cur_limit :: real

definition agilent_init :: "(string \<Rightarrow> error + string) \<Rightarrow> real \<Rightarrow> agilent" where
  "agilent_init i current_limit =
     \<lparr>wire = [], instr = i, OUTPUT_on = 0, cur_limit = current_limit\<rparr>"

definition turn_output_on :: "agilent \<Rightarrow> agilent" where
  "turn_output_on s = (visa_write '':OUTP ON'' s)\<lparr>OUTPUT_on := 1\<rparr>"

definition turn_output_off :: "agilent \<Rightarrow> agilent" where
  "turn_output_off s = (visa_write '':OUTP OFF'' s)\<lparr>OUTPUT_on := 0\<rparr>"

definition set_volt_range :: "string \<Rightarrow> agilent \<Rightarrow> agilent" where
  "set_volt_range volt_range s =
     (if volt_range = ''P8V'' then visa_write (''VOLT:RANG '' @ volt_range) s
      else if volt_range = ''P20V'' then visa_write (''VOLT:RANG '' @ volt_range) s
      else s)"

definition measure_volt_range :: "agilent \<Rightarrow> (error + string) \<times> agilent" where
  "measure_volt_range s = visa_query ''VOLT:RANG?'' s"

definition agilent_set_voltage :: "real \<Rightarrow> agilent \<Rightarrow> agilent" where
  "agilent_set_voltage voltage s =
     (let s1 = (if voltage \<ge> 0 \<and> voltage \<le> 20
                then visa_write_num '':SOUR:VOLT %.6E'' voltage s else s)
      in if OUTPUT_on s1 = 0 then turn_output_on s1 else s1)"

definition set_current_limit :: "real \<Rightarrow> agilent \<Rightarrow> agilent" where
  "set_current_limit current_limit s =
     (let s1 = (if OUTPUT_on s \<noteq> 0 then turn_output_off s else s)
      in visa_write_num '':SOUR:CURR %.6E'' current_limit s1)"

definition set_volt_protection :: "real \<Rightarrow> agilent \<Rightarrow> (error + unit) \<times> agilent" where
  "set_volt_protection volt_level s =
     (case measure_volt_range s of
        (Inl e, s1) \<Rightarrow> (Inl e, s1)
      | (Inr volt_range, s1) \<Rightarrow>
          (Inr (),
           if volt_range = ''P8V'' then
             (if volt_level \<ge> 0 \<and> volt_level \<le> 824 / 100
              then visa_write_num ''VOLT:PROT:LEV  %.6E'' volt_level s1 else s1)
           else if volt_range = ''P20V'' then
             (if volt_level \<ge> 0 \<and> volt_level \<le> 206 / 10
              then visa_write_num ''VOLT:PROT:LEV  %.6E'' volt_level s1 else s1)
           else s1))"

definition set_curr_protection :: "real \<Rightarrow> agilent \<Rightarrow> (error + unit) \<times> agilent" where
  "set_curr_protection curr_level s =
     (case measure_volt_range s of
        (Inl e, s1) \<Rightarrow> (Inl e, s1)
      | (Inr volt_range, s1) \<Rightarrow>
          (Inr (),
           if volt_range = ''P8V'' then
             (if curr_level \<ge> 0 \<and> curr_level \<le> 20
              then visa_write_num ''CURR:PROT:LEV  %.6E'' curr_level s1 else s1)
           else if volt_range = ''P20V'' then
             (if curr_level \<ge> 0 \<and> curr_level \<le> 10
              then visa_write_num ''CURR:PROT:LEV  %.6E'' curr_level s1 else s1)
           else s1))"

section \<open>Bus discovery\<close>

text \<open>
  \<^verbatim>\<open>list_instruments\<close> walks the addresses returned by the resource manager. Opening
  an address and querying \<^verbatim>\<open>*IDN?\<close> either raises \<^verbatim>\<open>VisaIOError\<close> or gives the
  identification text; the bus is the function from addresses to that outcome.
  The Python string operations are modelled on 8-bit characters.
\<close>

definition py_isspace :: "char \<Rightarrow> bool" where
  "py_isspace c = ((of_char c :: nat) \<in> {9, 10, 11, 12, 13, 28, 29, 30, 31, 32, 133, 160})"

definition py_rstrip :: "string \<Rightarrow> string" where
  "py_rstrip s = rev (dropWhile py_isspace (rev s))"

definition py_strip :: "string \<Rightarrow> string" where
  "py_strip s = dropWhile py_isspace (py_rstrip s)"

text \<open>\<^verbatim>\<open>s.split(sep, maxsplit)\<close> for a one-character separator.\<close>

fun py_split :: "char \<Rightarrow> nat \<Rightarrow> string \<Rightarrow> string list" where
  "py_split sep 0 s = [s]"
| "py_split sep (Suc n) s =
     (case dropWhile (\<lambda>c. c \<noteq> sep) s of
        [] \<Rightarrow> [s]
      | _ # rest \<Rightarrow> takeWhile (\<lambda>c. c \<noteq> sep) s # py_split sep n rest)"

text \<open>
  \<^verbatim>\<open>re.match(pat, s)\<close> for a pattern without metacharacters, as both patterns of the
  drivers are: the text must start with the pattern.
\<close>

definition re_match :: "string \<Rightarrow> string \<Rightarrow> bool" where
  "re_match pat s = (take (length pat) s = pat)"

record paramset =
  driver :: string
  visa_address :: string
  manufacturer :: string
  serial :: string
  model :: string
  version :: string

text \<open>
  One iteration of the loop body. \<^verbatim>\<open>VisaIOError\<close> is caught and the candidate skipped
  (\<open>Inr None\<close>); the \<^verbatim>\<open>ValueError\<close> of the tuple unpacking is not caught by the
  \<^verbatim>\<open>except\<close> clause and leaves the function.
\<close>

definition probe :: "string \<Rightarrow> string \<Rightarrow> (string \<Rightarrow> error + string) \<Rightarrow> string
    \<Rightarrow> error + paramset option" where
  "probe cls pat bus spec =
     (case bus spec of
        Inl e \<Rightarrow> (if e = VisaIOError then Inr None else Inl e)
      | Inr idn \<Rightarrow>
          (case py_split (CHR '','') 4 (py_rstrip idn) of
             [manufacturer', model', serial', version'] \<Rightarrow>
               if re_match pat model'
               then Inr (Some \<lparr>driver = cls, visa_address = spec, manufacturer = manufacturer',
                                serial = serial', model = model', version = version'\<rparr>)
               else Inr None
           | _ \<Rightarrow> Inl ValueError))"

fun scan :: "string \<Rightarrow> string \<Rightarrow> (string \<Rightarrow> error + string) \<Rightarrow> paramset list \<Rightarrow> string list
    \<Rightarrow> error + paramset list" where
  "scan cls pat bus paramsets [] = Inr paramsets"
| "scan cls pat bus paramsets (spec # specs) =
     (case probe cls pat bus spec of
        Inl e \<Rightarrow> Inl e
      | Inr None \<Rightarrow> scan cls pat bus paramsets specs
      | Inr (Some p) \<Rightarrow> scan cls pat bus (paramsets @ [p]) specs)"

definition agilent_list_instruments :: "string list \<Rightarrow> (string \<Rightarrow> error + string)
    \<Rightarrow> error + paramset list" where
  "agilent_list_instruments raw_spec_list bus =
     scan ''AgilentE3633A'' ''E3633A'' bus [] raw_spec_list"

definition keithley_list_instruments :: "string list \<Rightarrow> (string \<Rightarrow> error + string)
    \<Rightarrow> error + paramset list" where
  "keithley_list_instruments raw_spec_list bus =
     scan ''Keithley'' '' Model 2635A'' bus [] raw_spec_list"

section \<open>Ibsen Eagle spectrometer\<close>

subsection \<open>Integer parsing\<close>

text \<open>
  Python's \<^verbatim>\<open>int(s)\<close> in base 10: surrounding whitespace is stripped, a sign may come
  first, and the digits may be grouped by single underscores. Anything else raises
  \<^verbatim>\<open>ValueError\<close> (\<open>None\<close> here).
\<close>

definition is_digit :: "char \<Rightarrow> bool" where
  "is_digit c = (48 \<le> (of_char c :: nat) \<and> (of_char c :: nat) \<le> 57)"

definition digit_val :: "char \<Rightarrow> nat" where
  "digit_val c = of_char c - 48"

fun py_digits :: "nat \<Rightarrow> string \<Rightarrow> nat option" where
  "py_digits acc [] = Some acc"
| "py_digits acc [c] = (if is_digit c then Some (10 * acc + digit_val c) else None)"
| "py_digits acc (c # d # ds) =
     (if is_digit c then py_digits (10 * acc + digit_val c) (d # ds)
      else if c = CHR ''_'' \<and> is_digit d then py_digits (10 * acc + digit_val d) ds
      else None)"

definition py_nat :: "string \<Rightarrow> nat option" where
  "py_nat s = (case s of [] \<Rightarrow> None
               | c # cs \<Rightarrow> if is_digit c then py_digits (digit_val c) cs else None)"

definition py_int :: "string \<Rightarrow> int option" where
  "py_int s =
     (case py_strip s of
        [] \<Rightarrow> None
      | c # cs \<Rightarrow>
          if c = CHR ''+'' then map_option int (py_nat cs)
          else if c = CHR ''-'' then map_option (\<lambda>n. - int n) (py_nat cs)
          else map_option int (py_nat (c # cs)))"

text \<open>The list comprehension \<^verbatim>\<open>[int(val) for val in data_list]\<close>.\<close>

fun int_list :: "string list \<Rightarrow> error + int list" where
  "int_list [] = Inr []"
| "int_list (val # vals) =
     (case py_int val of
        None \<Rightarrow> Inl ValueError
      | Some n \<Rightarrow> (case int_list vals of Inl e \<Rightarrow> Inl e | Inr ns \<Rightarrow> Inr (n # ns)))"

subsection \<open>Frame reconstruction\<close>

text \<open>
  The processing of \<^verbatim>\<open>Eagle.spectrum\<close> after the read, on the tokens
  \<^verbatim>\<open>raw_data = self._rsrc.read().split()\<close>. \<^verbatim>\<open>raw_data[0]\<close> raises
  \<^verbatim>\<open>IndexError\<close> on an empty reply.
\<close>

definition spectrum_counts :: "string list \<Rightarrow> error + int list" where
  "spectrum_counts raw_data =
     (case raw_data of
        [] \<Rightarrow> Inl IndexError
      | tok0 # _ \<Rightarrow>
          (let data1 = drop 2 tok0;
               data_list = drop 1 raw_data;
               data_list' = (if data1 \<noteq> [] then data1 # data_list else data_list)
           in int_list data_list'))"

subsection \<open>Calibrated wavelength axis\<close>

text \<open>
  \<^verbatim>\<open>np.polyval(p, x)\<close> evaluates by Horner's rule with the highest coefficient first;
  \<^verbatim>\<open>np.arange(n)\<close> is \<open>0, \<dots>, n - 1\<close> and empty for \<open>n \<le> 0\<close>.
\<close>

definition polyval :: "real list \<Rightarrow> real \<Rightarrow> real" where
  "polyval p x = foldl (\<lambda>y pv. y * x + pv) 0 p"

definition arange :: "int \<Rightarrow> real list" where
  "arange n = map real [0..<nat n]"

definition eagle_wl :: "real list \<Rightarrow> int \<Rightarrow> real list" where
  "eagle_wl fit_params n_pixels = map (polyval (rev fit_params)) (arange n_pixels)"

section \<open>HP 70951B optical spectrum analyzer\<close>

text \<open>
  \<^verbatim>\<open>float\<close> and \<^verbatim>\<open>np.fromstring\<close> decode the replies; they belong to Python and
  numpy and are parameters of the model (\<open>float_of\<close> gives \<open>None\<close> where \<^verbatim>\<open>float\<close>
  raises \<^verbatim>\<open>ValueError\<close>). Wavelengths are magnitudes in nanometres, the unit the
  driver converts to.
\<close>

record decoders =
  float_of :: "string \<Rightarrow> real option"
  fromstring :: "string \<Rightarrow> real list"

record hposa = visa +
  timeout :: int
  read_termination :: string
  write_termination :: string

datatype amp_unit = watt | milliwatt | dimensionless

definition hposa_initialize :: "hposa \<Rightarrow> hposa" where
  "hposa_initialize s =
     visa_write ''TDF P''
       (s\<lparr>read_termination := [CHR 0x0A], timeout := 300, write_termination := '';''\<rparr>)"

definition query_float :: "decoders \<Rightarrow> string \<Rightarrow> hposa \<Rightarrow> (error + real) \<times> hposa" where
  "query_float py cmd s =
     (case visa_query cmd s of
        (Inl e, s1) \<Rightarrow> (Inl e, s1)
      | (Inr r, s1) \<Rightarrow>
          (case float_of py r of None \<Rightarrow> (Inl ValueError, s1) | Some x \<Rightarrow> (Inr x, s1)))"

definition get_center_wavelength :: "decoders \<Rightarrow> hposa \<Rightarrow> (error + real) \<times> hposa" where
  "get_center_wavelength py s =
     (case query_float py ''CF?'' s of
        (Inl e, s1) \<Rightarrow> (Inl e, s1)
      | (Inr x, s1) \<Rightarrow> (Inr (x * 10 ^ 9), s1))"

definition get_wavelength_span :: "decoders \<Rightarrow> hposa \<Rightarrow> (error + real) \<times> hposa" where
  "get_wavelength_span py s =
     (case query_float py ''SP?'' s of
        (Inl e, s1) \<Rightarrow> (Inl e, s1)
      | (Inr x, s1) \<Rightarrow> (Inr (x * 10 ^ 9), s1))"

definition get_sweep_time :: "decoders \<Rightarrow> hposa \<Rightarrow> (error + real) \<times> hposa" where
  "get_sweep_time py s = query_float py ''ST?'' (s\<lparr>timeout := 5000\<rparr>)"

definition get_amplitude_units :: "hposa \<Rightarrow> (error + amp_unit) \<times> hposa" where
  "get_amplitude_units s =
     (case visa_query ''AUNITS?'' s of
        (Inl e, s1) \<Rightarrow> (Inl e, s1)
      | (Inr au_str, s1) \<Rightarrow>
          (if au_str = ''W'' then (Inr watt, s1)
           else if au_str = ''MW'' then (Inr milliwatt, s1)
           else if au_str = ''DBM'' then (Inr dimensionless, s1)
           else (Inl UnboundLocalError, s1)))"

text \<open>
  \<^verbatim>\<open>np.linspace(start, stop, num)\<close> over the reals: \<open>num\<close> evenly spaced samples
  \<open>start + i * step\<close> with \<open>step = (stop - start) / (num - 1)\<close>, the last one set to
  \<open>stop\<close>; a single sample is \<open>start\<close>.
\<close>

definition linspace :: "real \<Rightarrow> real \<Rightarrow> nat \<Rightarrow> real list" where
  "linspace start stop num =
     (if num = 0 then []
      else if num = 1 then [start]
      else map (\<lambda>i. start + real i * ((stop - start) / real (num - 1))) [0..<num - 1] @ [stop])"

text \<open>The wavelength computation of \<^verbatim>\<open>get_spectrum\<close>.\<close>

definition span_axis :: "real \<Rightarrow> real \<Rightarrow> nat \<Rightarrow> real list" where
  "span_axis wl_center wl_span n_pts =
     (let wl_start = wl_center - wl_span / 2;
          wl_stop = wl_center + wl_span / 2
      in linspace wl_start wl_stop n_pts)"

definition get_spectrum :: "decoders \<Rightarrow> string \<Rightarrow> hposa
    \<Rightarrow> (error + real list \<times> real list \<times> amp_unit) \<times> hposa" where
  "get_spectrum py trace s =
     (case get_amplitude_units (s\<lparr>timeout := 15000\<rparr>) of
        (Inl e, s1) \<Rightarrow> (Inl e, s1)
      | (Inr au, s1) \<Rightarrow>
     (case get_center_wavelength py s1 of
        (Inl e, s2) \<Rightarrow> (Inl e, s2)
      | (Inr wl_center, s2) \<Rightarrow>
     (case get_wavelength_span py s2 of
        (Inl e, s3) \<Rightarrow> (Inl e, s3)
      | (Inr wl_span, s3) \<Rightarrow>
     (case visa_query (''TR'' @ trace @ ''?'') (visa_write ''TS;DONE?'' s3) of
        (Inl e, s4) \<Rightarrow> (Inl e, s4)
      | (Inr r, s4) \<Rightarrow>
          (let amp = fromstring py r;
               wl = span_axis wl_center wl_span (length amp);
               s5 = visa_write (''CLRW TR'' @ trace) (s4\<lparr>timeout := 300\<rparr>)
           in (Inr (wl, amp, au), s5))))))"

text \<open>
  The loop of \<^verbatim>\<open>get_peak_info\<close>: three writes and two queries per peak kind; the
  wavelength reply is decoded before the amplitude reply.
\<close>

fun peak_loop :: "decoders \<Rightarrow> string list \<Rightarrow> real list \<Rightarrow> real list \<Rightarrow> hposa
    \<Rightarrow> (error + real list \<times> real list) \<times> hposa" where
  "peak_loop py [] pk_wl pk_amp s = (Inr (pk_wl, pk_amp), s)"
| "peak_loop py (pk # pks) pk_wl pk_amp s =
     (let s1 = visa_write (''MKPK '' @ pk @ '';'')
                 (visa_write ''MK;'' (visa_write ''TS;DONE?;'' s))
      in case visa_query ''MKA?;'' s1 of
           (Inl e, s2) \<Rightarrow> (Inl e, s2)
         | (Inr amp, s2) \<Rightarrow>
        (case visa_query ''MKF?;'' s2 of
           (Inl e, s3) \<Rightarrow> (Inl e, s3)
         | (Inr wl, s3) \<Rightarrow>
        (case float_of py wl of
           None \<Rightarrow> (Inl ValueError, s3)
         | Some w \<Rightarrow>
        (case float_of py amp of
           None \<Rightarrow> (Inl ValueError, s3)
         | Some a \<Rightarrow> peak_loop py pks (pk_wl @ [w]) (pk_amp @ [a]) s3))))"

definition get_peak_info :: "decoders \<Rightarrow> string list \<Rightarrow> hposa
    \<Rightarrow> (error + real list \<times> real list) \<times> hposa" where
  "get_peak_info py peak_id s =
     (case peak_loop py peak_id [] [] (s\<lparr>timeout := 5000\<rparr>) of
        (Inl e, s1) \<Rightarrow> (Inl e, s1)
      | (Inr r, s1) \<Rightarrow> (Inr r, s1\<lparr>timeout := 300\<rparr>))"

section \<open>Instruments and buses used in the examples\<close>

text \<open>An instrument that never answers: every query raises \<^verbatim>\<open>VisaIOError\<close>.\<close>

definition no_instrument :: "string \<Rightarrow> error + string" where
  "no_instrument cmd = Inl VisaIOError"

text \<open>
  A bus given by the table of its attached devices and their identification strings;
  an address that is not in the table cannot be opened.
\<close>

definition bus_of :: "(string \<times> string) list \<Rightarrow> string \<Rightarrow> error + string" where
  "bus_of table spec = (case map_of table spec of None \<Rightarrow> Inl VisaIOError | Some idn \<Rightarrow> Inr idn)"

text \<open>
  An instrument given by the table of its replies; a query that is not in the table
  times out.
\<close>

definition instrument_of :: "(string \<times> string) list \<Rightarrow> string \<Rightarrow> error + string" where
  "instrument_of table cmd = (case map_of table cmd of None \<Rightarrow> Inl VisaIOError | Some r \<Rightarrow> Inr r)"

text \<open>Decoding of trace replies given by a table.\<close>

definition trace_of :: "(string \<times> real list) list \<Rightarrow> string \<Rightarrow> real list" where
  "trace_of table r = (case map_of table r of None \<Rightarrow> [] | Some xs \<Rightarrow> xs)"

text \<open>An analyzer session right after \<^verbatim>\<open>_initialize\<close>.\<close>

definition hposa_fresh :: "(string \<Rightarrow> error + string) \<Rightarrow> hposa" where
  "hposa_fresh i =
     hposa_initialize \<lparr>wire = [], instr = i, timeout = 2000, read_termination = [],
                       write_termination = []\<rparr>"

section \<open>Mode switching of the Keithley source meter\<close>

lemmas keithley_defs = set_voltage_def set_current_def set_func_def turn_off_def turn_on_def
  time_sleep_def visa_write_def visa_write_num_def to_m_def Let_def
  set_voltage_compliance_def set_current_compliance_def keithley_init_def

lemma set_voltage_switch:
  "mode s \<noteq> ''VOLTS'' \<Longrightarrow>
   wire (snd (set_voltage v s)) =
     wire s @ [Write ''smua.source.output = smua.OUTPUT_OFF'',
               Write ''smua.source.func = smua.OUTPUT_DCVOLTS'',
               Sleep (1 / 10),
               Write ''smua.source.output = smua.OUTPUT_ON'']
            @ (if dim v = Voltage then [WriteNum ''smua.source.levelv = %.4E'' (magnitude v)] else [])"
  by (simp add: keithley_defs)

lemma set_current_switch:
  "mode s \<noteq> ''AMPS'' \<Longrightarrow>
   wire (snd (set_current c s)) =
     wire s @ [Write ''smua.source.output = smua.OUTPUT_OFF'',
               Write ''smua.source.func = smua.OUTPUT_DCAMPS'',
               Sleep (1 / 10),
               Write ''smua.source.output = smua.OUTPUT_ON'']
            @ (if dim c = Current then [WriteNum ''smua.source.leveli = %.4E'' (magnitude c)] else [])"
  by (simp add: keithley_defs)

lemma set_voltage_switch_on:
  "mode s \<noteq> ''VOLTS'' \<Longrightarrow> is_on (snd (set_voltage v s)) = 1"
  by (simp add: keithley_defs)

lemma set_current_switch_on:
  "mode s \<noteq> ''AMPS'' \<Longrightarrow> is_on (snd (set_current c s)) = 1"
  by (simp add: keithley_defs)

text \<open>
  Claim C1. When \<^verbatim>\<open>set_voltage\<close> (\<^verbatim>\<open>set_current\<close>) is called while the tracked mode is
  not the requested one and the output is enabled, the transactions of the mode switch
  are, in this order: the output-off command, the mode-change command, the settling
  delay of 0.1 s (100 ms) and the output-on command. Nothing is interleaved; the only
  event after them is the setter's own level write, issued when the argument is a
  voltage (a current).
\<close>

theorem mode_switch_output_enabled:
  assumes "is_on s \<noteq> 0"
  shows "(mode s \<noteq> ''VOLTS'' \<longrightarrow>
          wire (snd (set_voltage v s)) =
            wire s @ [Write ''smua.source.output = smua.OUTPUT_OFF'',
                      Write ''smua.source.func = smua.OUTPUT_DCVOLTS'',
                      Sleep (1 / 10),
                      Write ''smua.source.output = smua.OUTPUT_ON'']
                   @ (if dim v = Voltage
                      then [WriteNum ''smua.source.levelv = %.4E'' (magnitude v)] else []))
       \<and> (mode s \<noteq> ''AMPS'' \<longrightarrow>
          wire (snd (set_current c s)) =
            wire s @ [Write ''smua.source.output = smua.OUTPUT_OFF'',
                      Write ''smua.source.func = smua.OUTPUT_DCAMPS'',
                      Sleep (1 / 10),
                      Write ''smua.source.output = smua.OUTPUT_ON'']
                   @ (if dim c = Current
                      then [WriteNum ''smua.source.leveli = %.4E'' (magnitude c)] else []))"
  using set_voltage_switch [of s v] set_current_switch [of s c] by blast

theorem mode_switch_output_enabled_witness:
  "is_on ((keithley_init no_instrument (Quantity (1 / 10) Current) (Quantity 5 Voltage))
            \<lparr>is_on := 1, mode := ''AMPS''\<rparr>) \<noteq> 0
   \<and> mode ((keithley_init no_instrument (Quantity (1 / 10) Current) (Quantity 5 Voltage))
            \<lparr>is_on := 1, mode := ''AMPS''\<rparr>) \<noteq> ''VOLTS''
   \<and> wire (snd (set_voltage (Quantity 2 Voltage)
        ((keithley_init no_instrument (Quantity (1 / 10) Current) (Quantity 5 Voltage))
            \<lparr>is_on := 1, mode := ''AMPS''\<rparr>))) =
       [Write ''smua.source.output = smua.OUTPUT_OFF'',
        Write ''smua.source.func = smua.OUTPUT_DCVOLTS'',
        Sleep (1 / 10),
        Write ''smua.source.output = smua.OUTPUT_ON'',
        WriteNum ''smua.source.levelv = %.4E'' 2]
   \<and> is_on ((keithley_init no_instrument (Quantity (1 / 10) Current) (Quantity 5 Voltage))
            \<lparr>is_on := 1\<rparr>) \<noteq> 0
   \<and> mode ((keithley_init no_instrument (Quantity (1 / 10) Current) (Quantity 5 Voltage))
            \<lparr>is_on := 1\<rparr>) \<noteq> ''AMPS''
   \<and> wire (snd (set_current (Quantity (1 / 100) Current)
        ((keithley_init no_instrument (Quantity (1 / 10) Current) (Quantity 5 Voltage))
            \<lparr>is_on := 1\<rparr>))) =
       [Write ''smua.source.output = smua.OUTPUT_OFF'',
        Write ''smua.source.func = smua.OUTPUT_DCAMPS'',
        Sleep (1 / 10),
        Write ''smua.source.output = smua.OUTPUT_ON'',
        WriteNum ''smua.source.leveli = %.4E'' (1 / 100)]"
  using mode_switch_output_enabled
          [of "(keithley_init no_instrument (Quantity (1 / 10) Current) (Quantity 5 Voltage))
                 \<lparr>is_on := 1, mode := ''AMPS''\<rparr>" "Quantity 2 Voltage" "Quantity 0 Current"]
        mode_switch_output_enabled
          [of "(keithley_init no_instrument (Quantity (1 / 10) Current) (Quantity 5 Voltage))
                 \<lparr>is_on := 1\<rparr>" "Quantity 0 Voltage" "Quantity (1 / 100) Current"]
  by (simp add: keithley_init_def)

text \<open>
  Claim C2, as stated, fails: with the output disabled and the mode different from the
  requested one the setter still writes the output-off command before the mode change
  and the output-on command after it.
\<close>

theorem mode_switch_output_disabled_counterexample:
  "is_on ((keithley_init no_instrument (Quantity (1 / 10) Current) (Quantity 5 Voltage))
            \<lparr>mode := ''AMPS''\<rparr>) = 0
   \<and> mode ((keithley_init no_instrument (Quantity (1 / 10) Current) (Quantity 5 Voltage))
            \<lparr>mode := ''AMPS''\<rparr>) \<noteq> ''VOLTS''
   \<and> wire (snd (set_voltage (Quantity 2 Voltage)
        ((keithley_init no_instrument (Quantity (1 / 10) Current) (Quantity 5 Voltage))
            \<lparr>mode := ''AMPS''\<rparr>))) =
       [Write ''smua.source.output = smua.OUTPUT_OFF'',
        Write ''smua.source.func = smua.OUTPUT_DCVOLTS'',
        Sleep (1 / 10),
        Write ''smua.source.output = smua.OUTPUT_ON'',
        WriteNum ''smua.source.levelv = %.4E'' 2]"
  by (simp add: keithley_defs)

text \<open>
  Claim C2, amended. When \<^verbatim>\<open>set_voltage\<close> (\<^verbatim>\<open>set_current\<close>) is called while the tracked
  output flag is off and the tracked mode is not the requested one, the transactions are
  the same as with the output enabled: output-off, mode change, settling delay,
  output-on, then the level write; the call returns with the output flag on.
\<close>

theorem mode_switch_output_disabled:
  assumes "is_on s = 0"
  shows "(mode s \<noteq> ''VOLTS'' \<longrightarrow>
          wire (snd (set_voltage v s)) =
            wire s @ [Write ''smua.source.output = smua.OUTPUT_OFF'',
                      Write ''smua.source.func = smua.OUTPUT_DCVOLTS'',
                      Sleep (1 / 10),
                      Write ''smua.source.output = smua.OUTPUT_ON'']
                   @ (if dim v = Voltage
                      then [WriteNum ''smua.source.levelv = %.4E'' (magnitude v)] else [])
          \<and> is_on (snd (set_voltage v s)) = 1)
       \<and> (mode s \<noteq> ''AMPS'' \<longrightarrow>
          wire (snd (set_current c s)) =
            wire s @ [Write ''smua.source.output = smua.OUTPUT_OFF'',
                      Write ''smua.source.func = smua.OUTPUT_DCAMPS'',
                      Sleep (1 / 10),
                      Write ''smua.source.output = smua.OUTPUT_ON'']
                   @ (if dim c = Current
                      then [WriteNum ''smua.source.leveli = %.4E'' (magnitude c)] else [])
          \<and> is_on (snd (set_current c s)) = 1)"
  using set_voltage_switch [of s v] set_current_switch [of s c]
        set_voltage_switch_on [of s v] set_current_switch_on [of s c] by blast

theorem mode_switch_output_disabled_witness:
  "is_on ((keithley_init no_instrument (Quantity (1 / 10) Current) (Quantity 5 Voltage))
            \<lparr>mode := ''AMPS''\<rparr>) = 0
   \<and> mode ((keithley_init no_instrument (Quantity (1 / 10) Current) (Quantity 5 Voltage))
            \<lparr>mode := ''AMPS''\<rparr>) \<noteq> ''VOLTS''
   \<and> wire (snd (set_voltage (Quantity 2 Voltage)
        ((keithley_init no_instrument (Quantity (1 / 10) Current) (Quantity 5 Voltage))
            \<lparr>mode := ''AMPS''\<rparr>))) =
       [Write ''smua.source.output = smua.OUTPUT_OFF'',
        Write ''smua.source.func = smua.OUTPUT_DCVOLTS'',
        Sleep (1 / 10),
        Write ''smua.source.output = smua.OUTPUT_ON'',
        WriteNum ''smua.source.levelv = %.4E'' 2]
   \<and> is_on (snd (set_voltage (Quantity 2 Voltage)
        ((keithley_init no_instrument (Quantity (1 / 10) Current) (Quantity 5 Voltage))
            \<lparr>mode := ''AMPS''\<rparr>))) = 1
   \<and> is_on (keithley_init no_instrument (Quantity (1 / 10) Current) (Quantity 5 Voltage)) = 0
   \<and> mode (keithley_init no_instrument (Quantity (1 / 10) Current) (Quantity 5 Voltage)) \<noteq> ''AMPS''
   \<and> wire (snd (set_current (Quantity (1 / 100) Current)
        (keithley_init no_instrument (Quantity (1 / 10) Current) (Quantity 5 Voltage)))) =
       [Write ''smua.source.output = smua.OUTPUT_OFF'',
        Write ''smua.source.func = smua.OUTPUT_DCAMPS'',
        Sleep (1 / 10),
        Write ''smua.source.output = smua.OUTPUT_ON'',
        WriteNum ''smua.source.leveli = %.4E'' (1 / 100)]
   \<and> is_on (snd (set_current (Quantity (1 / 100) Current)
        (keithley_init no_instrument (Quantity (1 / 10) Current) (Quantity 5 Voltage)))) = 1"
  using mode_switch_output_disabled
          [of "(keithley_init no_instrument (Quantity (1 / 10) Current) (Quantity 5 Voltage))
                 \<lparr>mode := ''AMPS''\<rparr>" "Quantity 2 Voltage" "Quantity 0 Current"]
        mode_switch_output_disabled
          [of "keithley_init no_instrument (Quantity (1 / 10) Current) (Quantity 5 Voltage)"
              "Quantity 0 Voltage" "Quantity (1 / 100) Current"]
  by (simp add: keithley_init_def)

text \<open>
  Claim C10. For every mode argument other than \<^verbatim>\<open>'VOLTS'\<close> and \<^verbatim>\<open>'AMPS'\<close>,
  \<^verbatim>\<open>set_func\<close> returns the session as it was: nothing is written to the instrument and
  the tracked mode is unchanged.
\<close>

theorem set_func_rejects_invalid_mode:
  "m \<noteq> ''VOLTS'' \<Longrightarrow> m \<noteq> ''AMPS'' \<Longrightarrow>
   set_func m s = s \<and> wire (set_func m s) = wire s \<and> mode (set_func m s) = mode s"
  by (simp add: set_func_def)

theorem set_func_rejects_invalid_mode_witness:
  "''CURR'' \<noteq> ''VOLTS'' \<and> ''CURR'' \<noteq> ''AMPS''
   \<and> wire (set_func ''CURR''
        (keithley_init no_instrument (Quantity (1 / 10) Current) (Quantity 5 Voltage))) = []
   \<and> mode (set_func ''CURR''
        (keithley_init no_instrument (Quantity (1 / 10) Current) (Quantity 5 Voltage))) = ''VOLTS''"
  using set_func_rejects_invalid_mode
          [of "''CURR''" "keithley_init no_instrument (Quantity (1 / 10) Current) (Quantity 5 Voltage)"]
  by (simp add: keithley_init_def)

section \<open>Range checks and limits of the power supplies\<close>

lemmas agilent_defs = agilent_set_voltage_def set_current_limit_def set_volt_protection_def
  set_curr_protection_def measure_volt_range_def turn_output_on_def turn_output_off_def
  visa_write_def visa_write_num_def visa_query_def agilent_init_def Let_def

text \<open>
  Claim C3 says that a range-checked setter called with a value outside its bounds writes
  nothing. \<^verbatim>\<open>AgilentE3633A.set_voltage\<close> does not write the rejected voltage, but its
  output-on block is outside the range check: on a fresh session (output off) the call
  \<^verbatim>\<open>set_voltage(25)\<close> writes \<^verbatim>\<open>:OUTP ON\<close> and sets the output flag.
\<close>

theorem agilent_set_voltage_out_of_range_turns_output_on:
  "OUTPUT_on (agilent_init no_instrument (1 / 2)) = 0
   \<and> wire (agilent_set_voltage 25 (agilent_init no_instrument (1 / 2))) = [Write '':OUTP ON'']
   \<and> OUTPUT_on (agilent_set_voltage 25 (agilent_init no_instrument (1 / 2))) = 1"
  by (simp add: agilent_defs)

text \<open>
  What the range checks do guarantee: a rejected voltage is never written, and
  \<^verbatim>\<open>set_volt_protection\<close> issues no write at all for a level outside the bounds of the
  range the instrument reports.
\<close>

lemma agilent_set_voltage_rejected_value_not_written:
  "\<not> (0 \<le> voltage \<and> voltage \<le> 20) \<Longrightarrow>
   wire (agilent_set_voltage voltage s) =
     wire s @ (if OUTPUT_on s = 0 then [Write '':OUTP ON''] else [])"
  by (simp add: agilent_defs)

lemma set_volt_protection_out_of_range_no_write:
  "instr s ''VOLT:RANG?'' = Inr r \<Longrightarrow>
   \<not> (0 \<le> v \<and> v \<le> (if r = ''P8V'' then 824 / 100 else 206 / 10)) \<Longrightarrow>
   writes (wire (snd (set_volt_protection v s))) = writes (wire s)"
  by (auto simp add: agilent_defs writes_def)

text \<open>
  Claim C8, as stated, fails for the Keithley: its compliance setters write the limit
  while the output is enabled and leave it enabled.
\<close>

theorem compliance_limit_counterexample:
  "is_on ((keithley_init no_instrument (Quantity (1 / 10) Current) (Quantity 5 Voltage))
            \<lparr>is_on := 1\<rparr>) \<noteq> 0
   \<and> wire (snd (set_current_compliance (Quantity (1 / 100) Current)
        ((keithley_init no_instrument (Quantity (1 / 10) Current) (Quantity 5 Voltage))
            \<lparr>is_on := 1\<rparr>))) = [WriteNum ''smua.source.limiti = %.4E'' (1 / 100)]
   \<and> is_on (snd (set_current_compliance (Quantity (1 / 100) Current)
        ((keithley_init no_instrument (Quantity (1 / 10) Current) (Quantity 5 Voltage))
            \<lparr>is_on := 1\<rparr>))) = 1"
  by (simp add: keithley_defs)

text \<open>
  Claim C8, amended. \<^verbatim>\<open>AgilentE3633A.set_current_limit\<close>, called while the output is
  enabled, writes the output-off command before the limit and returns with the output
  flag off. \<^verbatim>\<open>Keithley.set_voltage_compliance\<close> and \<^verbatim>\<open>set_current_compliance\<close> write
  only their limit commands and leave the output flag as it was.
\<close>

theorem compliance_limit:
  "(OUTPUT_on a \<noteq> 0 \<longrightarrow>
      wire (set_current_limit x a) = wire a @ [Write '':OUTP OFF'', WriteNum '':SOUR:CURR %.6E'' x]
      \<and> OUTPUT_on (set_current_limit x a) = 0)
   \<and> wire (snd (set_voltage_compliance v k)) =
       wire k @ (if dim v = Voltage
                 then [WriteNum ''smua.source.limitv = %.4E'' (magnitude v),
                       WriteNum ''smua.measure.rangev = %.4E'' (magnitude v)] else [])
   \<and> is_on (snd (set_voltage_compliance v k)) = is_on k
   \<and> wire (snd (set_current_compliance i k)) =
       wire k @ (if dim i = Current
                 then [WriteNum ''smua.source.limiti = %.4E'' (magnitude i)] else [])
   \<and> is_on (snd (set_current_compliance i k)) = is_on k"
  by (simp add: agilent_defs keithley_defs)

theorem compliance_limit_witness:
  "OUTPUT_on ((agilent_init no_instrument (1 / 2))\<lparr>OUTPUT_on := 1\<rparr>) \<noteq> 0
   \<and> wire (set_current_limit (3 / 10) ((agilent_init no_instrument (1 / 2))\<lparr>OUTPUT_on := 1\<rparr>)) =
       [Write '':OUTP OFF'', WriteNum '':SOUR:CURR %.6E'' (3 / 10)]
   \<and> OUTPUT_on (set_current_limit (3 / 10) ((agilent_init no_instrument (1 / 2))\<lparr>OUTPUT_on := 1\<rparr>)) = 0"
  using compliance_limit [of "(agilent_init no_instrument (1 / 2))\<lparr>OUTPUT_on := 1\<rparr>" "3 / 10"
                             "Quantity 5 Voltage"
                             "keithley_init no_instrument (Quantity (1 / 10) Current) (Quantity 5 Voltage)"
                             "Quantity (1 / 10) Current"]
  by (simp add: agilent_init_def)

section \<open>Bus discovery\<close>

text \<open>
  Claim C4 says that a malformed identification string only skips its candidate. The
  loop catches \<^verbatim>\<open>VisaIOError\<close> only: a reply that does not split into four fields makes
  the tuple unpacking raise \<^verbatim>\<open>ValueError\<close>, which leaves \<^verbatim>\<open>list_instruments\<close> and
  discards the descriptors found so far.
\<close>

theorem list_instruments_malformed_idn_escapes:
  "agilent_list_instruments [''GPIB0::5::INSTR'', ''GPIB0::23::INSTR'']
     (bus_of [(''GPIB0::5::INSTR'', ''HEWLETT-PACKARD,E3633A,0,1.7-5.0-1.0''),
              (''GPIB0::23::INSTR'', ''HP70951B'')]) = Inl ValueError"
  by (simp add: agilent_list_instruments_def probe_def bus_of_def py_rstrip_def py_isspace_def re_match_def numeral_eq_Suc)

text \<open>
  What the loop does guarantee: an I/O failure skips its candidate, and as long as no
  candidate raises inside the loop body the scan returns the descriptors of exactly the
  matching candidates, in bus order.
\<close>

lemma probe_io_error_skipped:
  "bus spec = Inl VisaIOError \<Longrightarrow> probe cls pat bus spec = Inr None"
  by (simp add: probe_def)

lemma scan_without_malformed:
  "\<forall>spec\<in>set specs. \<exists>r. probe cls pat bus spec = Inr r \<Longrightarrow>
   scan cls pat bus paramsets specs =
     Inr (paramsets @ List.map_filter
            (\<lambda>spec. case probe cls pat bus spec of Inl e \<Rightarrow> None | Inr r \<Rightarrow> r) specs)"
proof (induction specs arbitrary: paramsets)
  case Nil
  then show ?case by (simp add: List.map_filter_simps)
next
  case (Cons spec specs)
  then obtain r where r: "probe cls pat bus spec = Inr r" by auto
  from Cons.prems have rest: "\<forall>spec\<in>set specs. \<exists>r. probe cls pat bus spec = Inr r" by simp
  show ?case
  proof (cases r)
    case None
    with r Cons.IH [OF rest, of paramsets] show ?thesis
      by (simp add: List.map_filter_simps)
  next
    case (Some p)
    with r Cons.IH [OF rest, of "paramsets @ [p]"] show ?thesis
      by (simp add: List.map_filter_simps)
  qed
qed

text \<open>
  An address that cannot be opened and a well-formed reply of another model are skipped.
\<close>

lemma list_instruments_example:
  "agilent_list_instruments [''GPIB0::1::INSTR'', ''GPIB0::29::INSTR'', ''GPIB0::5::INSTR'']
     (bus_of [(''GPIB0::29::INSTR'', ''Keithley Instruments Inc., Model 2635A, 1234567, 2.2.6''),
              (''GPIB0::5::INSTR'', ''HEWLETT-PACKARD,E3633A,0,1.7-5.0-1.0'')])
   = Inr [\<lparr>driver = ''AgilentE3633A'', visa_address = ''GPIB0::5::INSTR'',
            manufacturer = ''HEWLETT-PACKARD'', serial = ''0'', model = ''E3633A'',
            version = ''1.7-5.0-1.0''\<rparr>]"
  by (simp add: agilent_list_instruments_def probe_def bus_of_def py_rstrip_def py_isspace_def re_match_def numeral_eq_Suc)

section \<open>Frame reconstruction of the Eagle spectrometer\<close>

lemma int_list_Inr_iff: "(int_list ts = Inr ns) = (map py_int ts = map Some ns)"
proof (induction ts arbitrary: ns)
  case Nil
  then show ?case by auto
next
  case (Cons t ts)
  show ?case
  proof (cases "py_int t")
    case None
    then show ?thesis by (cases ns) auto
  next
    case (Some n)
    show ?thesis
    proof (cases "int_list ts")
      case (Inl e)
      with Some Cons.IH show ?thesis by (cases ns) auto
    next
      case (Inr ms)
      with Some Cons.IH show ?thesis by (cases ns) auto
    qed
  qed
qed

lemma py_digits_all_digits:
  "\<forall>c\<in>set ds. is_digit c \<Longrightarrow>
   py_digits acc ds = Some (foldl (\<lambda>a c. 10 * a + digit_val c) acc ds)"
  by (induction acc ds rule: py_digits.induct) auto

lemma digit_not_space: "is_digit c \<Longrightarrow> \<not> py_isspace c"
  by (auto simp add: is_digit_def py_isspace_def)

lemma py_strip_digits: "\<forall>c\<in>set ds. is_digit c \<Longrightarrow> py_strip ds = ds"
proof -
  assume a: "\<forall>c\<in>set ds. is_digit c"
  then have "\<forall>c\<in>set (rev ds). \<not> py_isspace c" by (simp add: digit_not_space)
  then have "dropWhile py_isspace (rev ds) = rev ds"
    by (cases "rev ds") auto
  then have r: "py_rstrip ds = ds" by (simp add: py_rstrip_def)
  from a have "dropWhile py_isspace ds = ds"
    by (cases ds) (auto simp add: digit_not_space)
  with r show ?thesis by (simp add: py_strip_def)
qed

lemma py_int_digits:
  assumes "ds \<noteq> []" and "\<forall>c\<in>set ds. is_digit c"
  shows "py_int ds = Some (int (foldl (\<lambda>a c. 10 * a + digit_val c) 0 ds))"
proof -
  obtain c cs where ds: "ds = c # cs" using assms(1) by (cases ds) auto
  have sign: "c \<noteq> CHR ''+''" "c \<noteq> CHR ''-''"
    using assms(2) ds by (auto simp add: is_digit_def)
  have "py_nat ds = Some (foldl (\<lambda>a c. 10 * a + digit_val c) 0 ds)"
    using assms(2) ds by (simp add: py_nat_def py_digits_all_digits)
  then show ?thesis
    using sign ds py_strip_digits [OF assms(2)] by (simp add: py_int_def)
qed

text \<open>
  Claim C5. For tokens whose first token is a two-character prefix \<open>p\<close> followed by
  \<open>d\<close>, the processing of \<^verbatim>\<open>Eagle.spectrum\<close> drops the prefix, puts \<open>d\<close> in front of
  the remaining tokens when it is not empty and drops it otherwise, and parses every
  token of that list with \<^verbatim>\<open>int\<close>: the result is the list of the parsed integers when
  every token parses, and a token of decimal digits parses to its decimal value. The
  tokens \<^verbatim>\<open>["AB12", "34", "56"]\<close> give \<open>[12, 34, 56]\<close>.
\<close>

theorem frame_reconstruction:
  assumes "length p = 2"
  shows "spectrum_counts ((p @ d) # rest) = int_list (if d = [] then rest else d # rest)
       \<and> (\<forall>ts ns. (int_list ts = Inr ns) = (map py_int ts = map Some ns))
       \<and> (\<forall>ds. ds \<noteq> [] \<and> (\<forall>c\<in>set ds. is_digit c) \<longrightarrow>
             py_int ds = Some (int (foldl (\<lambda>a c. 10 * a + digit_val c) 0 ds)))"
  using assms int_list_Inr_iff py_int_digits by (simp add: spectrum_counts_def)

theorem frame_reconstruction_witness:
  "length ''AB'' = 2 \<and> spectrum_counts [''AB12'', ''34'', ''56''] = Inr [12, 34, 56]"
  using frame_reconstruction [of "''AB''" "''12''" "[''34'', ''56'']"]
  by (simp add: py_int_def py_strip_def py_rstrip_def py_isspace_def py_nat_def is_digit_def digit_val_def)

section \<open>Wavelength axes\<close>

lemma length_linspace: "length (linspace a b n) = n"
  by (simp add: linspace_def)

lemma linspace_nth:
  assumes "2 \<le> n" "i < n"
  shows "linspace a b n ! i = a + real i * ((b - a) / real (n - 1))"
proof (cases "i = n - 1")
  case True
  then have "linspace a b n ! i = b"
    using assms by (simp add: linspace_def nth_append)
  moreover have "a + real (n - 1) * ((b - a) / real (n - 1)) = b"
    using assms by simp
  ultimately show ?thesis using True by simp
next
  case False
  then have "i < n - 1" using assms by simp
  then show ?thesis using assms by (simp add: linspace_def nth_append)
qed

lemma span_axis_nth:
  assumes "2 \<le> n" "i < n"
  shows "span_axis c sp n ! i = (c - sp / 2) + real i * (sp / real (n - 1))"
  using linspace_nth [OF assms, of "c - sp / 2" "c + sp / 2"]
  by (simp add: span_axis_def Let_def)

lemma length_span_axis: "length (span_axis c sp n) = n"
  by (simp add: span_axis_def Let_def length_linspace)

lemma span_axis_strict:
  assumes "2 \<le> n" "0 < sp"
  shows "sorted_wrt (<) (span_axis c sp n)"
proof -
  have "span_axis c sp n ! i < span_axis c sp n ! j" if "i < j" "j < n" for i j
  proof -
    have "0 < sp / real (n - 1)" using assms by simp
    moreover have "real i < real j" using that by simp
    ultimately have "real i * (sp / real (n - 1)) < real j * (sp / real (n - 1))"
      by (rule mult_strict_right_mono [rotated])
    then show ?thesis using that assms by (simp add: span_axis_nth)
  qed
  then show ?thesis by (simp add: sorted_wrt_iff_nth_less length_span_axis)
qed

lemma span_axis_sorted:
  assumes "2 \<le> n" "0 \<le> sp"
  shows "sorted (span_axis c sp n)"
proof -
  have "span_axis c sp n ! i \<le> span_axis c sp n ! j" if "i \<le> j" "j < n" for i j
  proof -
    have "0 \<le> sp / real (n - 1)" using assms by simp
    moreover have "real i \<le> real j" using that by simp
    ultimately have "real i * (sp / real (n - 1)) \<le> real j * (sp / real (n - 1))"
      by (rule mult_right_mono [rotated])
    then show ?thesis using that assms by (simp add: span_axis_nth)
  qed
  then show ?thesis by (simp add: sorted_iff_nth_mono length_span_axis)
qed

text \<open>
  Claim C6, as stated, fails for a negative span: the axis then runs downwards.
\<close>

theorem span_axis_counterexample:
  "span_axis 1550 (- 10) 2 = [1555, 1545] \<and> \<not> sorted (span_axis 1550 (- 10) 2)"
  by (simp add: span_axis_def linspace_def Let_def)

text \<open>
  Claim C6, amended. For every center, every span and every point count \<open>n \<ge> 2\<close> the
  axis computed by \<^verbatim>\<open>get_spectrum\<close> has length \<open>n\<close>, starts at \<open>center - span/2\<close>, ends at
  \<open>center + span/2\<close> and is linear (sample \<open>i\<close> is the start plus \<open>i\<close> steps of
  \<open>span/(n - 1)\<close>); it is strictly increasing when the span is positive and
  non-decreasing when the span is not negative. For 1550 nm, 10 nm and 5 points it is
  \<open>[1545, 1547.5, 1550, 1552.5, 1555]\<close>.
\<close>

theorem span_axis_linear:
  assumes "2 \<le> n"
  shows "length (span_axis c sp n) = n
       \<and> hd (span_axis c sp n) = c - sp / 2
       \<and> last (span_axis c sp n) = c + sp / 2
       \<and> (\<forall>i<n. span_axis c sp n ! i = (c - sp / 2) + real i * (sp / real (n - 1)))
       \<and> (0 < sp \<longrightarrow> sorted_wrt (<) (span_axis c sp n))
       \<and> (0 \<le> sp \<longrightarrow> sorted (span_axis c sp n))"
proof -
  have ne: "span_axis c sp n \<noteq> []"
    using assms length_span_axis [of c sp n] by auto
  have h: "hd (span_axis c sp n) = c - sp / 2"
    using span_axis_nth [OF assms, of 0 c sp] assms ne by (simp add: hd_conv_nth)
  have l: "last (span_axis c sp n) = c + sp / 2"
    using assms by (simp add: span_axis_def Let_def linspace_def)
  show ?thesis
    using h l assms length_span_axis span_axis_nth span_axis_strict span_axis_sorted by blast
qed

theorem span_axis_linear_witness:
  "(2::nat) \<le> 5 \<and> (0::real) < 10
   \<and> span_axis 1550 10 5 = [1545, 15475 / 10, 1550, 15525 / 10, 1555]
   \<and> sorted_wrt (<) (span_axis 1550 10 5) \<and> length (span_axis 1550 10 5) = 5"
  using span_axis_linear [of 5 1550 10]
  by (simp add: span_axis_def linspace_def Let_def upt_conv_Cons)

lemma polyval_rev: "polyval (rev c) x = foldr (\<lambda>a acc. a + x * acc) c 0"
  by (simp add: polyval_def foldl_conv_foldr mult.commute add.commute)

lemma horner_sum:
  "foldr (\<lambda>a acc. a + x * acc) c 0 = (\<Sum>j<length c. c ! j * (x::real) ^ j)"
proof (induction c)
  case Nil
  then show ?case by simp
next
  case (Cons a c)
  have "(\<Sum>j<Suc (length c). (a # c) ! j * x ^ j) = a + (\<Sum>j<length c. c ! j * x ^ Suc j)"
    by (subst sum.lessThan_Suc_shift) simp
  also have "(\<Sum>j<length c. c ! j * x ^ Suc j) = x * (\<Sum>j<length c. c ! j * x ^ j)"
    by (simp add: sum_distrib_left mult_ac)
  finally show ?case using Cons.IH by simp
qed

lemma horner_nonneg_mono:
  assumes "\<forall>a\<in>set c. 0 \<le> a" "0 \<le> (x::real)" "x \<le> y"
  shows "0 \<le> foldr (\<lambda>a acc. a + x * acc) c 0
       \<and> foldr (\<lambda>a acc. a + x * acc) c 0 \<le> foldr (\<lambda>a acc. a + y * acc) c 0"
  using assms
proof (induction c)
  case Nil
  then show ?case by simp
next
  case (Cons a c)
  then have ih: "0 \<le> foldr (\<lambda>a acc. a + x * acc) c 0"
    "foldr (\<lambda>a acc. a + x * acc) c 0 \<le> foldr (\<lambda>a acc. a + y * acc) c 0"
    by auto
  have "x * foldr (\<lambda>a acc. a + x * acc) c 0 \<le> y * foldr (\<lambda>a acc. a + y * acc) c 0"
    using ih Cons.prems by (intro mult_mono) auto
  moreover have "0 \<le> a" using Cons.prems by simp
  moreover have "0 \<le> x * foldr (\<lambda>a acc. a + x * acc) c 0"
    using ih Cons.prems by simp
  ultimately show ?case by simp
qed

lemma polyval_mono:
  assumes "\<forall>a\<in>set (tl c). 0 \<le> a" "0 \<le> x" "x \<le> y"
  shows "polyval (rev c) x \<le> polyval (rev c) y"
proof (cases c)
  case Nil
  then show ?thesis by (simp add: polyval_def)
next
  case (Cons a cs)
  have "x * foldr (\<lambda>a acc. a + x * acc) cs 0 \<le> y * foldr (\<lambda>a acc. a + y * acc) cs 0"
    using horner_nonneg_mono [of cs x y] assms Cons by (intro mult_mono) auto
  moreover have "polyval (rev c) x = a + x * foldr (\<lambda>a acc. a + x * acc) cs 0"
    using Cons polyval_rev [of c x] by simp
  moreover have "polyval (rev c) y = a + y * foldr (\<lambda>a acc. a + y * acc) cs 0"
    using Cons polyval_rev [of c y] by simp
  ultimately show ?thesis by simp
qed

lemma eagle_wl_nth:
  "i < nat n \<Longrightarrow> eagle_wl c n ! i = polyval (rev c) (real i)"
  by (simp add: eagle_wl_def arange_def)

lemma length_eagle_wl: "length (eagle_wl c n) = nat n"
  by (simp add: eagle_wl_def arange_def)

text \<open>
  Claim C9, as stated, fails: a fit with a negative linear coefficient gives a
  decreasing axis.
\<close>

theorem calibrated_axis_counterexample:
  "eagle_wl [400, - 1, 0, 0, 0] 2 = [400, 399] \<and> \<not> sorted (eagle_wl [400, - 1, 0, 0, 0] 2)"
  by (simp add: eagle_wl_def arange_def polyval_def upt_conv_Cons eval_nat_numeral)

text \<open>
  Claim C9, amended. The wavelength array of \<^verbatim>\<open>Eagle._initialize\<close> has one entry per
  pixel index in \<open>[0, n_pixels)\<close>, entry \<open>i\<close> being the fit polynomial
  \<open>\<Sum>j. fit_params[j] * i^j\<close>; it is monotonically non-decreasing whenever every fit
  coefficient of degree one or more is non-negative.
\<close>

theorem calibrated_axis:
  "length (eagle_wl c n) = nat n
   \<and> (\<forall>i<nat n. eagle_wl c n ! i = (\<Sum>j<length c. c ! j * real i ^ j))
   \<and> ((\<forall>a\<in>set (tl c). 0 \<le> a) \<longrightarrow> sorted (eagle_wl c n))"
proof -
  have "sorted (eagle_wl c n)" if "\<forall>a\<in>set (tl c). 0 \<le> a"
  proof -
    have "eagle_wl c n ! i \<le> eagle_wl c n ! j" if "i \<le> j" "j < nat n" for i j
      using that polyval_mono [OF \<open>\<forall>a\<in>set (tl c). 0 \<le> a\<close>, of "real i" "real j"]
      by (simp add: eagle_wl_nth)
    then show ?thesis by (simp add: sorted_iff_nth_mono length_eagle_wl)
  qed
  then show ?thesis
    by (simp add: length_eagle_wl eagle_wl_nth polyval_rev horner_sum)
qed

theorem calibrated_axis_witness:
  "(0::real) \<le> 1 / 2
   \<and> eagle_wl [400, 1 / 2, 0, 0, 0] 3 = [400, 801 / 2, 401]
   \<and> sorted (eagle_wl [400, 1 / 2, 0, 0, 0] 3)"
  using calibrated_axis [of "[400, 1 / 2, 0, 0, 0]" 3]
  by (simp add: eagle_wl_def arange_def polyval_def upt_conv_Cons eval_nat_numeral)

section \<open>Session timeout of the spectrum analyzer\<close>

lemmas hposa_defs = get_spectrum_def get_amplitude_units_def get_center_wavelength_def
  get_wavelength_span_def query_float_def visa_query_def visa_write_def get_sweep_time_def
  hposa_initialize_def hposa_fresh_def get_peak_info_def Let_def

lemma get_spectrum_timeout:
  "fst (get_spectrum py tr s) = Inr r \<Longrightarrow> timeout (snd (get_spectrum py tr s)) = 300"
  by (auto simp add: hposa_defs split: sum.splits option.splits if_splits prod.splits)

lemma get_peak_info_timeout:
  "fst (get_peak_info py ids s) = Inr r \<Longrightarrow> timeout (snd (get_peak_info py ids s)) = 300"
  by (auto simp add: get_peak_info_def split: sum.splits prod.splits)

lemma peak_loop_timeout:
  "timeout (snd (peak_loop py ids ws as s)) = timeout s"
  by (induction py ids ws as s rule: peak_loop.induct)
     (auto simp add: visa_query_def visa_write_def Let_def split: sum.splits option.splits prod.splits)

lemma get_spectrum_timeout_failure:
  "fst (get_spectrum py tr s) = Inl e \<Longrightarrow> timeout (snd (get_spectrum py tr s)) = 15000"
  by (auto simp add: hposa_defs split: sum.splits option.splits if_splits prod.splits)

text \<open>
  Claim C7, as stated, fails. \<^verbatim>\<open>get_spectrum\<close> has no handler around its queries: when
  the instrument does not answer, the exception leaves the timeout at 15000 ms.
  \<^verbatim>\<open>get_sweep_time\<close> never sets the timeout back: it returns with 5000 ms.
\<close>

theorem timeout_counterexample:
  "timeout (hposa_fresh no_instrument) = 300
   \<and> fst (get_spectrum \<lparr>float_of = map_of [], fromstring = trace_of []\<rparr> ''A''
            (hposa_fresh no_instrument)) = Inl VisaIOError
   \<and> timeout (snd (get_spectrum \<lparr>float_of = map_of [], fromstring = trace_of []\<rparr> ''A''
            (hposa_fresh no_instrument))) = 15000
   \<and> timeout (hposa_fresh (instrument_of [(''ST?'', ''0.05'')])) = 300
   \<and> fst (get_sweep_time \<lparr>float_of = map_of [(''0.05'', 1 / 20)], fromstring = trace_of []\<rparr>
            (hposa_fresh (instrument_of [(''ST?'', ''0.05'')]))) = Inr (1 / 20)
   \<and> timeout (snd (get_sweep_time \<lparr>float_of = map_of [(''0.05'', 1 / 20)], fromstring = trace_of []\<rparr>
            (hposa_fresh (instrument_of [(''ST?'', ''0.05'')])))) = 5000"
  by (simp add: hposa_defs no_instrument_def instrument_of_def)

text \<open>
  Claim C7, amended. \<^verbatim>\<open>get_spectrum\<close> and \<^verbatim>\<open>get_peak_info\<close>, when they return
  normally, leave the session timeout at 300 ms, the value \<^verbatim>\<open>_initialize\<close> sets.
\<close>

theorem timeout_after_normal_return:
  "timeout (hposa_initialize s0) = 300
   \<and> (fst (get_spectrum py tr s) = Inr r \<longrightarrow> timeout (snd (get_spectrum py tr s)) = 300)
   \<and> (fst (get_peak_info py ids s) = Inr r' \<longrightarrow> timeout (snd (get_peak_info py ids s)) = 300)"
  using get_spectrum_timeout get_peak_info_timeout
  by (simp add: hposa_initialize_def visa_write_def)

theorem timeout_after_normal_return_witness:
  "fst (get_spectrum
          \<lparr>float_of = map_of [(''1.55E-06'', 155 / 10 ^ 8), (''1.0E-08'', 1 / 10 ^ 8)],
           fromstring = trace_of [(''1,2,3'', [1, 2, 3])]\<rparr> ''A''
          (hposa_fresh (instrument_of [(''AUNITS?'', ''W''), (''CF?'', ''1.55E-06''),
                                      (''SP?'', ''1.0E-08''), (''TRA?'', ''1,2,3'')])))
     = Inr ([1545, 1550, 1555], [1, 2, 3], watt)
   \<and> timeout (snd (get_spectrum
          \<lparr>float_of = map_of [(''1.55E-06'', 155 / 10 ^ 8), (''1.0E-08'', 1 / 10 ^ 8)],
           fromstring = trace_of [(''1,2,3'', [1, 2, 3])]\<rparr> ''A''
          (hposa_fresh (instrument_of [(''AUNITS?'', ''W''), (''CF?'', ''1.55E-06''),
                                      (''SP?'', ''1.0E-08''), (''TRA?'', ''1,2,3'')])))) = 300
   \<and> fst (get_peak_info
          \<lparr>float_of = map_of [(''1.55E-06'', 155 / 10 ^ 8), (''-10.0'', - 10)],
           fromstring = trace_of []\<rparr> [''HIP'']
          (hposa_fresh (instrument_of [(''MKA?;'', ''-10.0''), (''MKF?;'', ''1.55E-06'')])))
     = Inr ([155 / 10 ^ 8], [- 10])
   \<and> timeout (snd (get_peak_info
          \<lparr>float_of = map_of [(''1.55E-06'', 155 / 10 ^ 8), (''-10.0'', - 10)],
           fromstring = trace_of []\<rparr> [''HIP'']
          (hposa_fresh (instrument_of [(''MKA?;'', ''-10.0''), (''MKF?;'', ''1.55E-06'')])))) = 300"
proof -
  have a: "fst (get_spectrum
          \<lparr>float_of = map_of [(''1.55E-06'', 155 / 10 ^ 8), (''1.0E-08'', 1 / 10 ^ 8)],
           fromstring = trace_of [(''1,2,3'', [1, 2, 3])]\<rparr> ''A''
          (hposa_fresh (instrument_of [(''AUNITS?'', ''W''), (''CF?'', ''1.55E-06''),
                                      (''SP?'', ''1.0E-08''), (''TRA?'', ''1,2,3'')])))
     = Inr ([1545, 1550, 1555], [1, 2, 3], watt)"
    by (simp add: hposa_defs instrument_of_def trace_of_def span_axis_def linspace_def upt_conv_Cons)
  have b: "fst (get_peak_info
          \<lparr>float_of = map_of [(''1.55E-06'', 155 / 10 ^ 8), (''-10.0'', - 10)],
           fromstring = trace_of []\<rparr> [''HIP'']
          (hposa_fresh (instrument_of [(''MKA?;'', ''-10.0''), (''MKF?;'', ''1.55E-06'')])))
     = Inr ([155 / 10 ^ 8], [- 10])"
    by (simp add: hposa_defs instrument_of_def)
  show ?thesis
    using a b timeout_after_normal_return by blast
qed

end
